theory Spec2Isabelle
  imports Complex_Main
begin

section \<open>JavaScript values\<close>

text \<open>
  A JavaScript number is a finite value, one of the two infinities, or NaN. Finite values
  are taken as exact reals: the rounding of every operation to the nearest double and the
  overflow to an infinity are left out, so a finite result below is the one of the code
  only where the operations are exact in doubles. The statements that follow use the
  results of finite arithmetic by name only (as \<open>calculateMargin \<dots>\<close> or
  \<open>priceFromMargin \<dots>\<close>), or at values where every operation is exact
  (\<open>(10 - 5) / 10 * 100\<close>). Zero carries no sign, and a zero divisor counts as
  \<open>+0\<close>; the only zero divisor that \<open>omsFlowPriceUpdate.js\<close> can form is
  \<open>1 - 1\<close>, which is \<open>+0\<close> (\<open>calculateMargin\<close> returns before it divides by a
  zero revenue).
\<close>

datatype jsnum = Fin real | PInf | NInf | NaN

text \<open>
  The values a field of a fetched record can hold: a number, a checkbox, \<open>null\<close>,
  or nothing at all (\<open>undefined\<close>).
\<close>

datatype jsval = Number jsnum | Bool bool | Null | Undefined

fun typeof :: "jsval \<Rightarrow> string" where
  "typeof (Number n) = ''number''"
| "typeof (Bool b) = ''boolean''"
| "typeof Null = ''object''"
| "typeof Undefined = ''undefined''"

text \<open>The conversion that the arithmetic operators apply to their operands.\<close>

fun ToNumber :: "jsval \<Rightarrow> jsnum" where
  "ToNumber (Number n) = n"
| "ToNumber (Bool b) = (if b then Fin 1 else Fin 0)"
| "ToNumber Null = Fin 0"
| "ToNumber Undefined = NaN"

fun jneg :: "jsnum \<Rightarrow> jsnum" where
  "jneg (Fin a) = Fin (- a)"
| "jneg PInf = NInf"
| "jneg NInf = PInf"
| "jneg NaN = NaN"

text \<open>\<open>a - b\<close>\<close>

fun jsub :: "jsnum \<Rightarrow> jsnum \<Rightarrow> jsnum" where
  "jsub NaN y = NaN"
| "jsub x NaN = NaN"
| "jsub (Fin a) (Fin b) = Fin (a - b)"
| "jsub (Fin a) y = jneg y"
| "jsub PInf PInf = NaN"
| "jsub NInf NInf = NaN"
| "jsub x y = x"

text \<open>\<open>a * b\<close>\<close>

fun jmul :: "jsnum \<Rightarrow> jsnum \<Rightarrow> jsnum" where
  "jmul NaN y = NaN"
| "jmul x NaN = NaN"
| "jmul (Fin a) (Fin b) = Fin (a * b)"
| "jmul (Fin a) y = (if a = 0 then NaN else if 0 < a then y else jneg y)"
| "jmul x (Fin b) = (if b = 0 then NaN else if 0 < b then x else jneg x)"
| "jmul PInf y = y"
| "jmul NInf y = jneg y"

text \<open>\<open>a / b\<close>\<close>

fun jdiv :: "jsnum \<Rightarrow> jsnum \<Rightarrow> jsnum" where
  "jdiv NaN y = NaN"
| "jdiv x NaN = NaN"
| "jdiv (Fin a) (Fin b) =
     (if b = 0 then (if a = 0 then NaN else if 0 < a then PInf else NInf)
      else Fin (a / b))"
| "jdiv (Fin a) y = Fin 0"
| "jdiv x (Fin b) = (if b < 0 then jneg x else x)"
| "jdiv x y = NaN"

text \<open>
  Modelled from the spec: \<open>roundNum\<close> is imported from \<open>c/helper\<close>, which is not among
  the sources. The spec reads \<open>roundNum(x, 2)\<close> as "round to 2 decimal places"; halves
  go up, as \<open>Math.round\<close> does, and a value that is not finite comes back as it is.
\<close>

fun roundNum :: "jsnum \<Rightarrow> nat \<Rightarrow> jsnum" where
  "roundNum (Fin a) d = Fin (of_int (round (a * 10 ^ d)) / 10 ^ d)"
| "roundNum x d = x"

section \<open>The component\<close>

record product =
  Product_Cost__c :: jsval
  Agency_Pricing__c :: jsval

text \<open>
  An item as the wire adapter delivers it. The product of an item is a relationship of the
  record: an item without a product has no \<open>Product2\<close> at all.
\<close>

record raw_item =
  Id' :: string
  SalesPrice :: jsval
  Product2 :: "product option"

text \<open>
  An item of \<open>cartItems\<close>: the fetched fields, spread, then \<open>margin\<close> and \<open>readonly\<close>.
  Its \<open>Product2\<close> is there: \<open>wiredCart\<close> has read the cost from it.
\<close>

record cart_item =
  Id' :: string
  SalesPrice :: jsval
  Product2 :: product
  margin :: jsnum
  readonly :: jsval

text \<open>The exception of a property read from \<open>undefined\<close>.\<close>

datatype js_exn = TypeError

datatype err_body = ErrBody (body_message: "string option")

datatype js_error = JsError (error_body: "err_body option") (error_message: "string option")

record wire_result =
  data :: "raw_item list option"
  error :: "js_error option"

text \<open>\<open>errorMsg\<close> holds nothing, the error object of the wire, or the text of a failed save.\<close>

datatype err_msg = MsgUndefined | MsgError js_error | MsgText string

record component =
  cartId :: "string option"
  cartItems :: "cart_item list"
  errorMsg :: err_msg
  wiredCartResult :: "wire_result option"
  updatePriceTimeout :: "nat option"
  updateMarginTimeout :: "nat option"

definition initial :: component where
  "initial = \<lparr>cartId = None, cartItems = [], errorMsg = MsgUndefined, wiredCartResult = None,
     updatePriceTimeout = None, updateMarginTimeout = None\<rparr>"

subsection \<open>calculateMargin\<close>

definition calculateMargin :: "jsval \<Rightarrow> jsval \<Rightarrow> jsnum" where
  "calculateMargin revenue cost =
     (if typeof revenue \<noteq> ''number'' \<or> typeof cost \<noteq> ''number'' \<or> revenue = Number (Fin 0)
      then Fin 0
      else roundNum (jmul (jdiv (jsub (ToNumber revenue) (ToNumber cost)) (ToNumber revenue))
                      (Fin 100)) 2)"

subsection \<open>wiredCart\<close>

text \<open>
  The function that \<open>data.map\<close> applies. \<open>item.Product2.Product_Cost__c\<close> throws when
  the item has no \<open>Product2\<close>.
\<close>

definition mappedItem :: "raw_item \<Rightarrow> js_exn + cart_item" where
  "mappedItem item =
     (case raw_item.Product2 item of
        None \<Rightarrow> Inl TypeError
      | Some p \<Rightarrow>
          Inr \<lparr>Id' = raw_item.Id' item, SalesPrice = raw_item.SalesPrice item, Product2 = p,
               margin = calculateMargin (raw_item.SalesPrice item) (Product_Cost__c p),
               readonly = Agency_Pricing__c p\<rparr>)"

text \<open>\<open>data.map\<close>: the first exception ends it.\<close>

fun mapItems :: "raw_item list \<Rightarrow> js_exn + cart_item list" where
  "mapItems [] = Inr []"
| "mapItems (item # items) =
     (case mappedItem item of
        Inl x \<Rightarrow> Inl x
      | Inr m \<Rightarrow> (case mapItems items of Inl x \<Rightarrow> Inl x | Inr ms \<Rightarrow> Inr (m # ms)))"

text \<open>
  \<open>wiredCart\<close> gives the exception it throws, if any, and the component as it leaves
  it: \<open>wiredCartResult\<close> is assigned before anything can throw.
\<close>

definition wiredCart :: "wire_result \<Rightarrow> component \<Rightarrow> js_exn option \<times> component" where
  "wiredCart result c =
     (let c1 = c\<lparr>wiredCartResult := Some result\<rparr> in
      case data result of
        Some d \<Rightarrow>
          (case mapItems d of
             Inl x \<Rightarrow> (Some x, c1)
           | Inr items \<Rightarrow> (None, c1\<lparr>cartItems := items, errorMsg := MsgUndefined\<rparr>))
      | None \<Rightarrow>
          (case error result of
             Some e \<Rightarrow> (None, c1\<lparr>errorMsg := MsgError e\<rparr>)
           | None \<Rightarrow> (None, c1)))"

subsection \<open>Timers\<close>

text \<open>
  The environment of the component: a clock in milliseconds and the timers that
  \<open>setTimeout\<close> has started and that have neither run nor been cleared, oldest first.
  A timer's callback is one of the two closures of the source, fixed by the handler that
  made it and by the \<open>id\<close> and \<open>value\<close> it captured. \<open>value\<close> is the text of the
  input; both callbacks read it through \<open>parseFloat\<close> only, so the model holds the
  number that \<open>parseFloat\<close> returns for it (NaN for a text with no number in front).
  \<open>fired\<close> lists the callbacks that have run, in order; \<open>toasts\<close> the events dispatched;
  \<open>pendingRefresh\<close> counts the promises of \<open>refreshApex\<close> that have not settled.
\<close>

datatype field = Price | Margin

record timer =
  tid :: nat
  due :: nat
  cb_field :: field
  cb_id :: string
  cb_value :: jsnum

record toast =
  title :: string
  message :: string
  variant :: string

record world =
  cmp :: component
  clock :: nat
  timers :: "timer list"
  nextTid :: nat
  fired :: "timer list"
  toasts :: "toast list"
  pendingRefresh :: nat

definition setTimeout :: "field \<Rightarrow> string \<Rightarrow> jsnum \<Rightarrow> nat \<Rightarrow> world \<Rightarrow> nat \<times> world" where
  "setTimeout f i v delay w =
     (nextTid w,
      w\<lparr>timers := timers w @
           [\<lparr>tid = nextTid w, due = clock w + delay, cb_field = f, cb_id = i, cb_value = v\<rparr>],
        nextTid := Suc (nextTid w)\<rparr>)"

definition clearTimeout :: "nat \<Rightarrow> world \<Rightarrow> world" where
  "clearTimeout t w = w\<lparr>timers := filter (\<lambda>x. tid x \<noteq> t) (timers w)\<rparr>"

text \<open>\<open>if (handle) clearTimeout(handle)\<close>: \<open>undefined\<close> and \<open>0\<close> are falsy.\<close>

definition clearIfSet :: "nat option \<Rightarrow> world \<Rightarrow> world" where
  "clearIfSet h w = (case h of None \<Rightarrow> w | Some t \<Rightarrow> if t = 0 then w else clearTimeout t w)"

text \<open>\<open>this.cartItems.find(item => item.Id === id)\<close>, as the position of the item found.\<close>

fun findIndex :: "('a \<Rightarrow> bool) \<Rightarrow> 'a list \<Rightarrow> nat option" where
  "findIndex P [] = None"
| "findIndex P (x # xs) = (if P x then Some 0 else map_option Suc (findIndex P xs))"

subsection \<open>updatePrice\<close>

text \<open>The body of the timeout of \<open>updatePrice\<close>.\<close>

definition priceCallback :: "string \<Rightarrow> jsnum \<Rightarrow> component \<Rightarrow> component" where
  "priceCallback i v c =
     (case findIndex (\<lambda>item. Id' item = i) (cartItems c) of
        Some k \<Rightarrow>
          (let updatedItem = cartItems c ! k;
               updatedItem = updatedItem\<lparr>SalesPrice := Number v\<rparr>;
               updatedItem = updatedItem\<lparr>margin :=
                 calculateMargin (SalesPrice updatedItem) (Product_Cost__c (Product2 updatedItem))\<rparr>
           in c\<lparr>cartItems := (cartItems c)[k := updatedItem]\<rparr>)
      | None \<Rightarrow> c)"

definition updatePrice :: "string \<Rightarrow> jsnum \<Rightarrow> world \<Rightarrow> world" where
  "updatePrice i v w =
     (let w1 = clearIfSet (updatePriceTimeout (cmp w)) w;
          (t, w2) = setTimeout Price i v 500 w1
      in w2\<lparr>cmp := (cmp w2)\<lparr>updatePriceTimeout := Some t\<rparr>\<rparr>)"

subsection \<open>updateMargin\<close>

text \<open>
  Lines 102 to 104: the price that the callback of \<open>updateMargin\<close> stores for the margin
  typed and the cost of the item.
\<close>

definition priceFromMargin :: "jsnum \<Rightarrow> jsval \<Rightarrow> jsnum" where
  "priceFromMargin v cost =
     (let newMargin = jdiv v (Fin 100)
      in roundNum (jdiv (ToNumber cost) (jsub (Fin 1) newMargin)) 2)"

definition marginCallback :: "string \<Rightarrow> jsnum \<Rightarrow> component \<Rightarrow> component" where
  "marginCallback i v c =
     (case findIndex (\<lambda>item. Id' item = i) (cartItems c) of
        Some k \<Rightarrow>
          (let updatedItem = cartItems c ! k;
               cost = Product_Cost__c (Product2 updatedItem);
               updatedItem = updatedItem\<lparr>SalesPrice := Number (priceFromMargin v cost)\<rparr>;
               updatedItem = updatedItem\<lparr>margin := v\<rparr>
           in c\<lparr>cartItems := (cartItems c)[k := updatedItem]\<rparr>)
      | None \<Rightarrow> c)"

definition updateMargin :: "string \<Rightarrow> jsnum \<Rightarrow> world \<Rightarrow> world" where
  "updateMargin i v w =
     (let w1 = clearIfSet (updateMarginTimeout (cmp w)) w;
          (t, w2) = setTimeout Margin i v 500 w1
      in w2\<lparr>cmp := (cmp w2)\<lparr>updateMarginTimeout := Some t\<rparr>\<rparr>)"

subsection \<open>The passing of time\<close>

definition callback :: "timer \<Rightarrow> component \<Rightarrow> component" where
  "callback t = (case cb_field t of
       Price \<Rightarrow> priceCallback (cb_id t) (cb_value t)
     | Margin \<Rightarrow> marginCallback (cb_id t) (cb_value t))"

definition run_timer :: "timer \<Rightarrow> world \<Rightarrow> world" where
  "run_timer t w = w\<lparr>cmp := callback t (cmp w), fired := fired w @ [t]\<rparr>"

text \<open>
  \<open>advance dt\<close> lets \<open>dt\<close> milliseconds pass with no event from the user: the timers
  that are due by then run, the earliest first, those due together in the order they
  were started. No callback starts or clears a timer.
\<close>

definition advance :: "nat \<Rightarrow> world \<Rightarrow> world" where
  "advance dt w =
     (let T = clock w + dt;
          ready = sort_key due (filter (\<lambda>t. due t \<le> T) (timers w));
          w' = w\<lparr>clock := T, timers := filter (\<lambda>t. \<not> due t \<le> T) (timers w)\<rparr>
      in fold run_timer ready w')"

definition world0 :: "component \<Rightarrow> world" where
  "world0 c = \<lparr>cmp = c, clock = 0, timers = [], nextTid = 1, fired = [], toasts = [],
     pendingRefresh = 0\<rparr>"

subsection \<open>saveChanges\<close>

definition showSuccessToast :: "string \<Rightarrow> world \<Rightarrow> world" where
  "showSuccessToast m w =
     w\<lparr>toasts := toasts w @ [\<lparr>title = ''Success'', message = m, variant = ''success''\<rparr>]\<rparr>"

definition showErrorToast :: "string \<Rightarrow> world \<Rightarrow> world" where
  "showErrorToast m w =
     w\<lparr>toasts := toasts w @ [\<lparr>title = ''Error'', message = m, variant = ''error''\<rparr>]\<rparr>"

text \<open>
  The argument of \<open>updateRecord\<close>: an object whose one key, \<open>fields\<close>, holds an object
  with the keys \<open>Id\<close> and \<open>SalesPrice\<close>.
\<close>

record record_fields =
  fields_Id :: string
  fields_SalesPrice :: jsval

record record_input =
  fields' :: record_fields

definition updates :: "component \<Rightarrow> record_input list" where
  "updates c =
     map (\<lambda>item. \<lparr>fields' = \<lparr>fields_Id = Id' item, fields_SalesPrice = SalesPrice item\<rparr>\<rparr>)
       (cartItems c)"

text \<open>
  A promise of \<open>updateRecord\<close> settles at some time, fulfilled or rejected with an error.
  \<open>Promise.all\<close> is fulfilled when every promise is, and otherwise rejected with the error
  of the promise that is rejected first: \<open>first_rejection\<close> finds it, the leftmost of
  those rejected at the same time.
\<close>

datatype settled = Fulfilled | Rejected js_error

type_synonym promise = "nat \<times> settled"

fun first_rejection :: "promise list \<Rightarrow> (nat \<times> js_error) option" where
  "first_rejection [] = None"
| "first_rejection ((t, Fulfilled) # ps) = first_rejection ps"
| "first_rejection ((t, Rejected e) # ps) =
     (case first_rejection ps of
        None \<Rightarrow> Some (t, e)
      | Some (t', e') \<Rightarrow> if t' < t then Some (t', e') else Some (t, e))"

definition error_text :: "js_error \<Rightarrow> err_msg" where
  "error_text e =
     (case (case error_body e of Some b \<Rightarrow> body_message b | None \<Rightarrow> error_message e) of
        Some s \<Rightarrow> MsgText s
      | None \<Rightarrow> MsgUndefined)"

text \<open>
  \<open>saveChanges\<close>, with the handler of \<open>then\<close> or of \<open>catch\<close> run on the state the
  requests were built from: no other event comes between the call and the settling.
\<close>

definition saveChanges :: "(record_input \<Rightarrow> promise) \<Rightarrow> world \<Rightarrow> world" where
  "saveChanges updateRecord w =
     (let updatePromises = map updateRecord (updates (cmp w)) in
      case first_rejection updatePromises of
        None \<Rightarrow>
          (let w1 = showSuccessToast ''Changes saved successfully'' w
           in w1\<lparr>cmp := (cmp w1)\<lparr>cartItems := map (\<lambda>item. item) (cartItems (cmp w1))\<rparr>\<rparr>)
      | Some (t, e) \<Rightarrow>
          (let w1 = w\<lparr>cmp := (cmp w)\<lparr>errorMsg := error_text e\<rparr>\<rparr>
           in showErrorToast ''Error saving changes'' w1))"

subsection \<open>refreshCartItems\<close>

text \<open>
  \<open>refreshCartItems\<close> only starts \<open>refreshApex\<close> and returns its promise. The rest
  happens later, on its own events: the wire calls \<open>wiredCart\<close> with a new result
  (\<open>provision\<close>, which is also how the first result arrives), and the promise settles
  (\<open>refreshSettled\<close>, the handlers of \<open>then\<close> and \<open>catch\<close>). An exception of
  \<open>wiredCart\<close> goes to the framework; the component stays as \<open>wiredCart\<close> left it.
\<close>

definition refreshCartItems :: "world \<Rightarrow> world" where
  "refreshCartItems w = w\<lparr>pendingRefresh := Suc (pendingRefresh w)\<rparr>"

definition provision :: "wire_result \<Rightarrow> world \<Rightarrow> world" where
  "provision result w = w\<lparr>cmp := snd (wiredCart result (cmp w))\<rparr>"

definition refreshSettled :: "bool \<Rightarrow> world \<Rightarrow> world" where
  "refreshSettled rejected w =
     (let w1 = w\<lparr>pendingRefresh := pendingRefresh w - 1\<rparr>
      in if rejected then showErrorToast ''Error refreshing cart items'' w1 else w1)"

subsection \<open>Events\<close>

text \<open>
  What can happen to the component, one event after the other: an edit of a field of an
  item, time passing, a save with the write collaborator's answers, a refresh, a result
  from the wire, the settling of a refresh.
\<close>

datatype event =
  Edit field string jsnum
| Wait nat
| Save "record_input \<Rightarrow> promise"
| Refresh
| Provision wire_result
| RefreshSettled bool

fun step :: "event \<Rightarrow> world \<Rightarrow> world" where
  "step (Edit Price i v) w = updatePrice i v w"
| "step (Edit Margin i v) w = updateMargin i v w"
| "step (Wait dt) w = advance dt w"
| "step (Save updateRecord) w = saveChanges updateRecord w"
| "step Refresh w = refreshCartItems w"
| "step (Provision result) w = provision result w"
| "step (RefreshSettled rejected) w = refreshSettled rejected w"

definition run :: "event list \<Rightarrow> world \<Rightarrow> world" where
  "run es w = fold step es w"

text \<open>The worlds that the events lead to from the start.\<close>

inductive reachable :: "world \<Rightarrow> bool" where
  reach_start: "reachable (world0 initial)"
| reach_step: "reachable w \<Longrightarrow> reachable (step e w)"

section \<open>Notions for the statements\<close>

text \<open>
  The two handlers differ in the field that holds their timer and in their callback only.
  \<open>edit\<close> is the handler for a field, \<open>slot\<close> the field of the component that holds its
  timer.
\<close>

definition slot :: "field \<Rightarrow> component \<Rightarrow> nat option" where
  "slot f c = (case f of Price \<Rightarrow> updatePriceTimeout c | Margin \<Rightarrow> updateMarginTimeout c)"

definition set_slot :: "field \<Rightarrow> nat \<Rightarrow> component \<Rightarrow> component" where
  "set_slot f n c = (case f of Price \<Rightarrow> c\<lparr>updatePriceTimeout := Some n\<rparr>
                             | Margin \<Rightarrow> c\<lparr>updateMarginTimeout := Some n\<rparr>)"

definition edit :: "field \<Rightarrow> string \<Rightarrow> jsnum \<Rightarrow> world \<Rightarrow> world" where
  "edit f = (case f of Price \<Rightarrow> updatePrice | Margin \<Rightarrow> updateMargin)"

definition mk_timer :: "nat \<Rightarrow> nat \<Rightarrow> field \<Rightarrow> string \<Rightarrow> jsnum \<Rightarrow> timer" where
  "mk_timer n d f i v = \<lparr>tid = n, due = d, cb_field = f, cb_id = i, cb_value = v\<rparr>"

text \<open>
  What holds of every world that the handlers and the clock can reach from \<open>world0\<close>:
  the identifiers of timers are below the next one to be given out, and a pending timer
  whose identifier a field of the component holds was started by the handler of that field.
\<close>

definition wf_world :: "world \<Rightarrow> bool" where
  "wf_world w =
     (list_all (\<lambda>t. tid t < nextTid w \<and>
          (updatePriceTimeout (cmp w) = Some (tid t) \<longrightarrow> cb_field t = Price) \<and>
          (updateMarginTimeout (cmp w) = Some (tid t) \<longrightarrow> cb_field t = Margin)) (timers w) \<and>
      (case updatePriceTimeout (cmp w) of None \<Rightarrow> True | Some n \<Rightarrow> n < nextTid w) \<and>
      (case updateMarginTimeout (cmp w) of None \<Rightarrow> True | Some n \<Rightarrow> n < nextTid w))"

text \<open>A cart of two items, the first with agency pricing, as the wire delivers it.\<close>

definition rawA :: raw_item where
  "rawA = \<lparr>raw_item.Id' = ''A'', raw_item.SalesPrice = Number (Fin 10),
     raw_item.Product2 =
       Some \<lparr>Product_Cost__c = Number (Fin 5), Agency_Pricing__c = Bool True\<rparr>\<rparr>"

definition rawB :: raw_item where
  "rawB = \<lparr>raw_item.Id' = ''B'', raw_item.SalesPrice = Number (Fin 20),
     raw_item.Product2 =
       Some \<lparr>Product_Cost__c = Number (Fin 5), Agency_Pricing__c = Bool False\<rparr>\<rparr>"

text \<open>An item with no product.\<close>

definition rawC :: raw_item where
  "rawC = \<lparr>raw_item.Id' = ''C'', raw_item.SalesPrice = Number (Fin 7),
     raw_item.Product2 = None\<rparr>"

definition cartAB :: wire_result where
  "cartAB = \<lparr>data = Some [rawA, rawB], error = None\<rparr>"

definition loaded :: world where
  "loaded = world0 (snd (wiredCart cartAB initial))"

text \<open>The callback that the handler of a field starts.\<close>

definition commit :: "field \<Rightarrow> string \<Rightarrow> jsnum \<Rightarrow> component \<Rightarrow> component" where
  "commit f = (case f of Price \<Rightarrow> priceCallback | Margin \<Rightarrow> marginCallback)"

text \<open>The same cart as the server holds it later, the price of the first item changed.\<close>

definition cartA12 :: wire_result where
  "cartA12 =
     \<lparr>data = Some [rawA\<lparr>raw_item.SalesPrice := Number (Fin 12)\<rparr>, rawB], error = None\<rparr>"

text \<open>
  Two write collaborators: one fulfils every request; the other rejects both requests of
  the cart, that of item B first.
\<close>

definition alwaysFulfilled :: "record_input \<Rightarrow> promise" where
  "alwaysFulfilled r = (7, Fulfilled)"

definition rejectsBoth :: "record_input \<Rightarrow> promise" where
  "rejectsBoth r =
     (if fields_Id (fields' r) = ''A''
      then (9, Rejected (JsError None (Some ''late'')))
      else (3, Rejected (JsError (Some (ErrBody (Some ''first''))) (Some ''outer''))))"

text \<open>A result of the wire that reports an error and no data.\<close>

definition fetchFailed :: wire_result where
  "fetchFailed = \<lparr>data = None, error = Some (JsError (Some (ErrBody (Some ''no access''))) None)\<rparr>"

section \<open>The timers\<close>

lemma edit_unfold:
  "edit f i v w =
     (let w1 = clearIfSet (slot f (cmp w)) w
      in w1\<lparr>timers := timers w1 @ [mk_timer (nextTid w1) (clock w1 + 500) f i v],
            nextTid := Suc (nextTid w1),
            cmp := set_slot f (nextTid w1) (cmp w1)\<rparr>)"
  by (cases f) (simp_all add: edit_def updatePrice_def updateMargin_def setTimeout_def
      slot_def set_slot_def mk_timer_def Let_def)

lemma clearIfSet_simps [simp]:
  "cmp (clearIfSet h w) = cmp w" "clock (clearIfSet h w) = clock w"
  "nextTid (clearIfSet h w) = nextTid w" "fired (clearIfSet h w) = fired w"
  "toasts (clearIfSet h w) = toasts w"
  by (simp_all add: clearIfSet_def clearTimeout_def split: option.splits)

lemma timers_clearIfSet:
  "timers (clearIfSet h w) =
     (case h of None \<Rightarrow> timers w
      | Some n \<Rightarrow> if n = 0 then timers w else filter (\<lambda>x. tid x \<noteq> n) (timers w))"
  by (simp add: clearIfSet_def clearTimeout_def split: option.splits)


lemma advance_idle:
  assumes "\<forall>t \<in> set (timers w). clock w + g < due t"
  shows "advance g w = w\<lparr>clock := clock w + g\<rparr>"
proof -
  have "filter (\<lambda>t. due t \<le> clock w + g) (timers w) = []"
    using assms by (auto simp: filter_empty_conv)
  moreover have "filter (\<lambda>t. \<not> due t \<le> clock w + g) (timers w) = timers w"
    using assms by (auto simp: filter_id_conv)
  ultimately show ?thesis by (simp add: advance_def Let_def)
qed



lemma set_slot_simps [simp]:
  "slot f (set_slot f n c) = Some n"
  "set_slot f n (set_slot f m c) = set_slot f n c"
  "cartItems (set_slot f n c) = cartItems c"
  "errorMsg (set_slot f n c) = errorMsg c"
  by (cases f; simp add: slot_def set_slot_def)+

lemma cartItems_callback_set_slot [simp]:
  "cartItems (callback t (set_slot f n c)) = cartItems (callback t c)"
  by (cases f; cases "cb_field t")
     (simp_all add: callback_def set_slot_def priceCallback_def marginCallback_def Let_def
        split: option.splits)

lemma wf_world_iff:
  "wf_world w \<longleftrightarrow>
     (\<forall>t \<in> set (timers w). tid t < nextTid w \<and> (\<forall>f. slot f (cmp w) = Some (tid t) \<longrightarrow> cb_field t = f)) \<and>
     (\<forall>f n. slot f (cmp w) = Some n \<longrightarrow> n < nextTid w)"
proof -
  have a: "(\<forall>f. P f) \<longleftrightarrow> P Price \<and> P Margin" for P
    by (metis field.exhaust)
  show ?thesis
    by (simp add: wf_world_def list_all_iff a slot_def split: option.splits)
qed

lemma wf_world0: "updatePriceTimeout c = None \<Longrightarrow> updateMarginTimeout c = None \<Longrightarrow> wf_world (world0 c)"
  by (simp add: wf_world_def world0_def)

lemma slot_set_slot: "slot g (set_slot f n c) = (if g = f then Some n else slot g c)"
  by (cases f; cases g; simp add: slot_def set_slot_def)

lemma set_timers_clearIfSet: "set (timers (clearIfSet h w)) \<subseteq> set (timers w)"
  by (auto simp: timers_clearIfSet split: option.splits)

lemma wf_edit:
  assumes "wf_world w"
  shows "wf_world (edit f i v w)"
proof -
  let ?w1 = "clearIfSet (slot f (cmp w)) w"
  have sub: "set (timers ?w1) \<subseteq> set (timers w)" by (rule set_timers_clearIfSet)
  show ?thesis
    using assms sub
    by (auto simp: wf_world_iff edit_unfold Let_def slot_set_slot mk_timer_def less_Suc_eq
        split: if_splits)
qed

lemma slot_callback [simp]: "slot f (callback t c) = slot f c"
  by (cases f; cases "cb_field t")
     (simp_all add: slot_def callback_def priceCallback_def marginCallback_def Let_def
        split: option.splits)


lemma fold_run_timer:
  "fold run_timer ts w = w\<lparr>cmp := fold callback ts (cmp w), fired := fired w @ ts\<rparr>"
  by (induction ts arbitrary: w) (simp_all add: run_timer_def)

lemma slot_fold_callback [simp]: "slot f (fold callback ts c) = slot f c"
  by (induction ts arbitrary: c) simp_all

lemma advance_unfold:
  "advance d w =
     w\<lparr>clock := clock w + d,
       timers := filter (\<lambda>t. \<not> due t \<le> clock w + d) (timers w),
       cmp := fold callback (sort_key due (filter (\<lambda>t. due t \<le> clock w + d) (timers w))) (cmp w),
       fired := fired w @ sort_key due (filter (\<lambda>t. due t \<le> clock w + d) (timers w))\<rparr>"
  by (simp add: advance_def Let_def fold_run_timer)

lemma wf_advance:
  assumes "wf_world w"
  shows "wf_world (advance d w)"
  using assms by (auto simp: wf_world_iff advance_unfold)

lemma findIndex_Some:
  "findIndex P xs = Some k \<Longrightarrow> k < length xs \<and> P (xs ! k) \<and> (\<forall>j < k. \<not> P (xs ! j))"
proof (induction xs arbitrary: k)
  case Nil
  then show ?case by simp
next
  case (Cons x xs)
  then show ?case
    by (auto split: if_splits simp: nth_Cons less_Suc_eq_0_disj split: nat.splits)
qed


lemma slot_wiredCart [simp]: "slot f (snd (wiredCart r c)) = slot f c"
  by (cases f) (simp_all add: slot_def wiredCart_def Let_def split: option.splits sum.splits)

lemma provision_simps [simp]:
  "timers (provision r w) = timers w" "clock (provision r w) = clock w"
  "nextTid (provision r w) = nextTid w" "fired (provision r w) = fired w"
  "toasts (provision r w) = toasts w" "cmp (provision r w) = snd (wiredCart r (cmp w))"
  by (simp_all add: provision_def)

lemma refreshCartItems_simps [simp]:
  "timers (refreshCartItems w) = timers w" "clock (refreshCartItems w) = clock w"
  "nextTid (refreshCartItems w) = nextTid w" "fired (refreshCartItems w) = fired w"
  "toasts (refreshCartItems w) = toasts w" "cmp (refreshCartItems w) = cmp w"
  by (simp_all add: refreshCartItems_def)

lemma refreshSettled_simps [simp]:
  "timers (refreshSettled b w) = timers w" "clock (refreshSettled b w) = clock w"
  "nextTid (refreshSettled b w) = nextTid w" "fired (refreshSettled b w) = fired w"
  "cmp (refreshSettled b w) = cmp w"
  by (simp_all add: refreshSettled_def showErrorToast_def Let_def)

lemma saveChanges_simps [simp]:
  "timers (saveChanges u w) = timers w" "clock (saveChanges u w) = clock w"
  "nextTid (saveChanges u w) = nextTid w" "fired (saveChanges u w) = fired w"
  "slot f (cmp (saveChanges u w)) = slot f (cmp w)"
  by (cases f; simp add: slot_def saveChanges_def showSuccessToast_def showErrorToast_def Let_def
        split: option.splits prod.splits)+

lemma cartItems_wiredCart_cong:
  "cartItems c = cartItems c' \<Longrightarrow>
     cartItems (snd (wiredCart r c)) = cartItems (snd (wiredCart r c'))"
  by (simp add: wiredCart_def Let_def split: option.splits sum.splits)

lemma callback_mk_timer: "callback (mk_timer n T f i v) = commit f i v"
  by (cases f) (simp_all add: callback_def commit_def mk_timer_def fun_eq_iff)

lemma cmp_showErrorToast [simp]: "cmp (showErrorToast m w) = cmp w"
  by (simp add: showErrorToast_def)

lemma timers_showErrorToast [simp]:
  "timers (showErrorToast m w) = timers w" "nextTid (showErrorToast m w) = nextTid w"
  by (simp_all add: showErrorToast_def)

lemma wf_refreshCartItems:
  assumes "wf_world w"
  shows "wf_world (refreshCartItems w)"
  using assms by (simp add: wf_world_iff)

lemma wf_provision:
  assumes "wf_world w"
  shows "wf_world (provision r w)"
  using assms by (simp add: wf_world_iff)

lemma wf_refreshSettled:
  assumes "wf_world w"
  shows "wf_world (refreshSettled b w)"
  using assms by (simp add: wf_world_iff)

lemma wf_saveChanges:
  assumes "wf_world w"
  shows "wf_world (saveChanges updateRecord w)"
  using assms by (simp add: wf_world_iff)

section \<open>Promises\<close>

lemma first_rejection_None:
  "first_rejection ps = None \<longleftrightarrow> list_all (\<lambda>p. snd p = Fulfilled) ps"
  by (induction ps rule: first_rejection.induct) (auto split: option.splits)

lemma first_rejection_Some:
  "first_rejection ps = Some (t, e) \<Longrightarrow>
     (t, Rejected e) \<in> set ps \<and> (\<forall>t' e'. (t', Rejected e') \<in> set ps \<longrightarrow> t \<le> t')"
proof (induction ps arbitrary: t e rule: first_rejection.induct)
  case 1
  then show ?case by simp
next
  case (2 t0 ps)
  then show ?case by auto
next
  case (3 t0 e0 ps)
  show ?case
  proof (cases "first_rejection ps")
    case None
    then have "list_all (\<lambda>p. snd p = Fulfilled) ps" by (simp add: first_rejection_None)
    then have "\<And>t' e'. (t', Rejected e') \<notin> set ps" by (auto simp: list_all_iff)
    with 3 None show ?thesis by auto
  next
    case (Some r)
    obtain t1 e1 where r: "r = (t1, e1)" by (cases r)
    from "3.IH" [of t1 e1] Some r
    have ih: "(t1, Rejected e1) \<in> set ps \<and> (\<forall>t' e'. (t', Rejected e') \<in> set ps \<longrightarrow> t1 \<le> t')"
      by simp
    from "3.prems" Some r show ?thesis
      using ih by (auto split: if_splits) 
  qed
qed

section \<open>Debounce\<close>




section \<open>Items with agency pricing\<close>




section \<open>A margin of 100\<close>

text \<open>
  C3. A margin edit of 100 on item A, whose cost is 5, divides 5 by \<open>1 - 1\<close>: the price
  stored is \<open>Infinity\<close>.
\<close>

theorem margin_100_stores_infinity:
  "map SalesPrice (cartItems (cmp (advance 500 (updateMargin ''A'' (Fin 100) loaded)))) =
     [Number PInf, Number (Fin 20)]"
  by code_simp

section \<open>Saving\<close>

text \<open>
  C6. \<open>saveChanges\<close> returns nothing; its result is the toast it dispatches. When every
  promise of \<open>updateRecord\<close> is fulfilled, the success toast is dispatched and nothing
  else changes. Otherwise some promise is rejected, and with the error \<open>e\<close> of the one
  rejected first: the error toast is dispatched, \<open>errorMsg\<close> becomes \<open>e.body.message\<close>
  if \<open>e\<close> has a body and \<open>e.message\<close> if not, and nothing else changes; the collection
  is the one before the save.
\<close>

theorem save_outcome:
  "(if list_all (\<lambda>r. snd (updateRecord r) = Fulfilled) (updates (cmp w))
    then saveChanges updateRecord w =
      w\<lparr>toasts := toasts w @
        [\<lparr>title = ''Success'', message = ''Changes saved successfully'', variant = ''success''\<rparr>]\<rparr>
    else \<exists>t e. (t, Rejected e) \<in> set (map updateRecord (updates (cmp w))) \<and>
      (\<forall>t' e'. (t', Rejected e') \<in> set (map updateRecord (updates (cmp w))) \<longrightarrow> t \<le> t') \<and>
      saveChanges updateRecord w =
        w\<lparr>cmp := (cmp w)\<lparr>errorMsg :=
             (case (case error_body e of Some b \<Rightarrow> body_message b | None \<Rightarrow> error_message e) of
                Some s \<Rightarrow> MsgText s | None \<Rightarrow> MsgUndefined)\<rparr>,
          toasts := toasts w @
            [\<lparr>title = ''Error'', message = ''Error saving changes'', variant = ''error''\<rparr>]\<rparr>)"
proof (cases "first_rejection (map updateRecord (updates (cmp w)))")
  case None
  then have all: "list_all (\<lambda>r. snd (updateRecord r) = Fulfilled) (updates (cmp w))"
    by (simp add: first_rejection_None list_all_iff)
  have "saveChanges updateRecord w =
      w\<lparr>toasts := toasts w @
        [\<lparr>title = ''Success'', message = ''Changes saved successfully'', variant = ''success''\<rparr>]\<rparr>"
    by (simp add: saveChanges_def None showSuccessToast_def Let_def)
  with all show ?thesis by simp
next
  case (Some r)
  obtain t e where r: "r = (t, e)" by (cases r)
  from first_rejection_Some [of "map updateRecord (updates (cmp w))" t e] Some r
  have m: "(t, Rejected e) \<in> set (map updateRecord (updates (cmp w))) \<and>
      (\<forall>t' e'. (t', Rejected e') \<in> set (map updateRecord (updates (cmp w))) \<longrightarrow> t \<le> t')"
    by simp
  have nall: "\<not> list_all (\<lambda>r. snd (updateRecord r) = Fulfilled) (updates (cmp w))"
    using Some first_rejection_None [of "map updateRecord (updates (cmp w))"]
    by (simp add: list_all_iff)
  have "saveChanges updateRecord w =
        w\<lparr>cmp := (cmp w)\<lparr>errorMsg :=
             (case (case error_body e of Some b \<Rightarrow> body_message b | None \<Rightarrow> error_message e) of
                Some s \<Rightarrow> MsgText s | None \<Rightarrow> MsgUndefined)\<rparr>,
          toasts := toasts w @
            [\<lparr>title = ''Error'', message = ''Error saving changes'', variant = ''error''\<rparr>]\<rparr>"
    by (simp add: saveChanges_def Some r showErrorToast_def Let_def error_text_def)
  with m nall show ?thesis by auto
qed

theorem save_outcome_witness:
  "list_all (\<lambda>r. snd (alwaysFulfilled r) = Fulfilled) (updates (cmp loaded)) \<and>
   map variant (toasts (saveChanges alwaysFulfilled loaded)) = [''success''] \<and>
   \<not> list_all (\<lambda>r. snd (rejectsBoth r) = Fulfilled) (updates (cmp loaded)) \<and>
   map variant (toasts (saveChanges rejectsBoth loaded)) = [''error''] \<and>
   errorMsg (cmp (saveChanges rejectsBoth loaded)) = MsgText ''first'' \<and>
   cartItems (cmp (saveChanges rejectsBoth loaded)) = cartItems (cmp loaded)"
proof -
  have h1: "list_all (\<lambda>r. snd (alwaysFulfilled r) = Fulfilled) (updates (cmp loaded))"
    by code_simp
  have h2: "\<not> list_all (\<lambda>r. snd (rejectsBoth r) = Fulfilled) (updates (cmp loaded))"
    by code_simp
  have t: "toasts loaded = []" by code_simp
  have ps: "map rejectsBoth (updates (cmp loaded)) =
      [(9, Rejected (JsError None (Some ''late''))),
       (3, Rejected (JsError (Some (ErrBody (Some ''first''))) (Some ''outer'')))]"
    by code_simp
  from save_outcome [of alwaysFulfilled loaded] h1 t
  have a: "map variant (toasts (saveChanges alwaysFulfilled loaded)) = [''success'']"
    by simp
  from save_outcome [of rejectsBoth loaded] h2 t
  have b: "map variant (toasts (saveChanges rejectsBoth loaded)) = [''error''] \<and>
     errorMsg (cmp (saveChanges rejectsBoth loaded)) = MsgText ''first'' \<and>
     cartItems (cmp (saveChanges rejectsBoth loaded)) = cartItems (cmp loaded)"
    unfolding ps by auto
  from h1 a h2 b show ?thesis by blast
qed

text \<open>
  C7. \<open>saveChanges\<close> calls \<open>updateRecord\<close> on the elements of \<open>updates\<close>, in order.
  There is one request for each item, in the order of the collection; its \<open>fields\<close>
  hold the \<open>Id\<close> and the \<open>SalesPrice\<close> of the item and nothing else, and the requests
  stay the same when margins, flags and products (with their costs) are replaced.
\<close>

theorem save_payload:
  "length (updates c) = length (cartItems c) \<and>
   map (\<lambda>u. fields_Id (fields' u)) (updates c) = map Id' (cartItems c) \<and>
   map (\<lambda>u. fields_SalesPrice (fields' u)) (updates c) = map SalesPrice (cartItems c) \<and>
   updates (c\<lparr>cartItems :=
       map (\<lambda>item. item\<lparr>margin := m item, readonly := r item, Product2 := p item\<rparr>)
         (cartItems c)\<rparr>) = updates c"
  by (simp add: updates_def comp_def)

section \<open>Margins\<close>

text \<open>
  C4. \<open>typeof NaN\<close> is \<open>number\<close>: with a price or a cost that is NaN,
  \<open>calculateMargin\<close> goes past its check and returns NaN, not 0. A price edit with an
  empty text, which \<open>parseFloat\<close> reads as NaN, stores the margin NaN.
\<close>

theorem calculateMargin_NaN:
  "calculateMargin (Number NaN) (Number (Fin 5)) = NaN \<and>
   calculateMargin (Number (Fin 10)) (Number NaN) = NaN \<and>
   map margin (cartItems (cmp (advance 500 (updatePrice ''A'' NaN loaded)))) = [NaN, Fin 75]"
  by code_simp

theorem calculateMargin_NaN_witness:
  "calculateMargin (Number NaN) (Number (Fin 5)) \<noteq> Fin 0 \<and>
   calculateMargin (Number (Fin 10)) (Number NaN) \<noteq> Fin 0"
  using calculateMargin_NaN by simp

end
